theory Spec2Isabelle
  imports Main
begin

section \<open>Errors, panics and results\<close>

text \<open>
  A Go \<^verbatim>\<open>error\<close> value. \<open>New\<close> is an error made by \<^verbatim>\<open>errors.New\<close> or
  \<^verbatim>\<open>fmt.Errorf\<close> (or any error a collaborator hands back), \<open>WithMessage\<close> is the
  annotated error that \<^verbatim>\<open>errors.Wrap\<close> builds around a cause, and \<open>StatusError\<close> is an
  API status error of the cluster with its reason (for instance \<^verbatim>\<open>Conflict\<close>).
  A nil error is \<open>None\<close> of \<open>error option\<close>.
\<close>

datatype error =
    New string
  | WithMessage error string
  | StatusError string string

text \<open>
  The outcome of a call that can also panic: the performer dereferences pointers and
  slices byte sequences without a guard, and a panic is not a returned error.
\<close>

datatype 'a result = Ok 'a | Err error | Panic string

text \<open>
  \<^verbatim>\<open>errors.Wrap(err, message)\<close> of github.com/pkg/errors: a nil \<^verbatim>\<open>err\<close> gives nil,
  any other error is annotated with the message.
\<close>

fun errors_Wrap :: "error option \<Rightarrow> string \<Rightarrow> error option" where
  "errors_Wrap None message = None"
| "errors_Wrap (Some err) message = Some (WithMessage err message)"

section \<open>The webhook configuration\<close>

text \<open>
  \<^verbatim>\<open>metav1.LabelSelectorRequirement\<close>. \<open>Values\<close> is a Go slice: \<open>None\<close> is the nil slice,
  which \<^verbatim>\<open>reflect.DeepEqual\<close> tells apart from an empty one.
\<close>

record LabelSelectorRequirement =
  Key :: string
  Operator :: string
  Values :: "string list option"

record LabelSelector =
  MatchLabels :: "(string \<times> string) list"
  MatchExpressions :: "LabelSelectorRequirement list"

text \<open>
  \<^verbatim>\<open>v1.MutatingWebhook\<close>: the selectors are pointers, \<open>None\<close> is nil. A field name
  that several Go structs share carries a prefix here (\<open>wh_Name\<close> of a webhook,
  \<open>whc_Name\<close> of a configuration, and so on), since record fields are constants.
\<close>

record MutatingWebhook =
  wh_Name :: string
  NamespaceSelector :: "LabelSelector option"
  ObjectSelector :: "LabelSelector option"

record MutatingWebhookConfiguration =
  whc_Name :: string
  ResourceVersion :: string
  Webhooks :: "MutatingWebhook list"

text \<open>
  \<^verbatim>\<open>reflect.DeepEqual\<close> on two requirements: the strings are equal and the value slices
  are both nil or both non-nil with equal elements, which is equality of the records.
\<close>

definition DeepEqual :: "LabelSelectorRequirement \<Rightarrow> LabelSelectorRequirement \<Rightarrow> bool" where
  "DeepEqual x y = (x = y)"

text \<open>
  The inner loop of \<^verbatim>\<open>addNamespaceSelectorIfNotPresent\<close>: \<^verbatim>\<open>hasRequiredLabel\<close> after
  the scan of \<^verbatim>\<open>matchExpressions\<close>, which breaks at the first deeply equal expression.
\<close>

fun hasRequiredLabel :: "LabelSelectorRequirement list \<Rightarrow> LabelSelectorRequirement \<Rightarrow> bool" where
  "hasRequiredLabel [] requiredLabelSelector = False"
| "hasRequiredLabel (m # matchExpressions) requiredLabelSelector =
     (if DeepEqual m requiredLabelSelector then True
      else hasRequiredLabel matchExpressions requiredLabelSelector)"

text \<open>
  The body of the outer loop for an entry whose name is the target name. Reading
  \<^verbatim>\<open>NamespaceSelector.MatchExpressions\<close> through a nil \<^verbatim>\<open>NamespaceSelector\<close> panics.
\<close>

definition patchWebhook ::
  "MutatingWebhook \<Rightarrow> LabelSelectorRequirement \<Rightarrow> MutatingWebhook result" where
  "patchWebhook w requiredLabelSelector =
     (case NamespaceSelector w of
        None \<Rightarrow> Panic ''invalid memory address or nil pointer dereference''
      | Some sel \<Rightarrow>
          (let matchExpressions = MatchExpressions sel in
           if \<not> hasRequiredLabel matchExpressions requiredLabelSelector
           then Ok (w\<lparr>NamespaceSelector :=
                      Some (sel\<lparr>MatchExpressions := matchExpressions @ [requiredLabelSelector]\<rparr>)\<rparr>)
           else Ok w))"

text \<open>
  The outer loop over \<^verbatim>\<open>whConf.Webhooks\<close>: \<open>Ok None\<close> when the loop ends without a
  name match, \<open>Ok (Some ws)\<close> with the entries after the \<^verbatim>\<open>return nil\<close> at the first match.
\<close>

fun scanWebhooks ::
  "MutatingWebhook list \<Rightarrow> string \<Rightarrow> LabelSelectorRequirement \<Rightarrow> MutatingWebhook list option result" where
  "scanWebhooks [] webhookNameToChange requiredLabelSelector = Ok None"
| "scanWebhooks (w # ws) webhookNameToChange requiredLabelSelector =
     (if wh_Name w = webhookNameToChange then
        (case patchWebhook w requiredLabelSelector of
           Ok w' \<Rightarrow> Ok (Some (w' # ws))
         | Err e \<Rightarrow> Err e
         | Panic p \<Rightarrow> Panic p)
      else
        (case scanWebhooks ws webhookNameToChange requiredLabelSelector of
           Ok (Some ws') \<Rightarrow> Ok (Some (w # ws'))
         | Ok None \<Rightarrow> Ok None
         | Err e \<Rightarrow> Err e
         | Panic p \<Rightarrow> Panic p))"

text \<open>
  \<^verbatim>\<open>addNamespaceSelectorIfNotPresent\<close>. The Go function mutates \<^verbatim>\<open>whConf\<close> in place and
  returns an error; here the configuration after the call is the value of \<open>Ok\<close>. On the
  error and on the panic nothing was written.
\<close>

definition addNamespaceSelectorIfNotPresent ::
  "MutatingWebhookConfiguration \<Rightarrow> string \<Rightarrow> LabelSelectorRequirement
     \<Rightarrow> MutatingWebhookConfiguration result" where
  "addNamespaceSelectorIfNotPresent whConf webhookNameToChange requiredLabelSelector =
     (case scanWebhooks (Webhooks whConf) webhookNameToChange requiredLabelSelector of
        Ok (Some ws) \<Rightarrow> Ok (whConf\<lparr>Webhooks := ws\<rparr>)
      | Ok None \<Rightarrow>
          Err (New (''could not find webhook '' @ webhookNameToChange
                    @ '' in WebhookConfiguration '' @ whc_Name whConf))
      | Err e \<Rightarrow> Err e
      | Panic p \<Rightarrow> Panic p)"

section \<open>The cluster client\<close>

text \<open>
  The calls on collaborators change a state \<open>'s\<close> outside the performer (the cluster,
  and whatever other actors do to it between two calls): a call takes the state and
  returns its result with the state after it. Contexts and loggers are opaque handles;
  log output and cancellation are not modelled.
\<close>

datatype Context = Context nat

datatype Logger = Logger nat

datatype DeletionPropagation =
  DeletePropagationOrphan | DeletePropagationBackground | DeletePropagationForeground

record DeleteOptions =
  PropagationPolicy :: "DeletionPropagation option"

text \<open>
  The part of \<^verbatim>\<open>clientgo.Interface\<close> that the performer calls:
  \<^verbatim>\<open>AdmissionregistrationV1().MutatingWebhookConfigurations().Get\<close> and \<^verbatim>\<open>Update\<close>, and
  \<^verbatim>\<open>CoreV1().Namespaces().Delete\<close>.
\<close>

record 's clientgo_Interface =
  MutatingWebhookConfigurations_Get ::
    "string \<Rightarrow> 's \<Rightarrow> (error + MutatingWebhookConfiguration) \<times> 's"
  MutatingWebhookConfigurations_Update ::
    "MutatingWebhookConfiguration \<Rightarrow> 's \<Rightarrow> error option \<times> 's"
  Namespaces_Delete ::
    "string \<Rightarrow> DeleteOptions \<Rightarrow> 's \<Rightarrow> error option \<times> 's"

text \<open>\<^verbatim>\<open>kubernetes.Client\<close>: \<^verbatim>\<open>Kubeconfig()\<close> and \<^verbatim>\<open>Clientset()\<close>.\<close>

record 's kubernetes_Client =
  Kubeconfig :: string
  Clientset :: "error + 's clientgo_Interface"

section \<open>Selecting and patching the webhook configuration\<close>

text \<open>
  The loop of \<^verbatim>\<open>selectWebhookConfFormCandidates\<close> with its named results \<^verbatim>\<open>wh\<close> and
  \<^verbatim>\<open>err\<close>: \<open>err\<close> is the error of the last fetch so far (nil before the first one).
\<close>

fun selectLoop ::
  "'s clientgo_Interface \<Rightarrow> string list \<Rightarrow> error option \<Rightarrow> 's
     \<Rightarrow> (MutatingWebhookConfiguration option \<times> error option) \<times> 's" where
  "selectLoop clientSet [] err s =
     ((None, errors_Wrap err ''MutatingWebhookConfigurations could not be selected from candidates''), s)"
| "selectLoop clientSet (webhookName # candidatesNames) err s =
     (case MutatingWebhookConfigurations_Get clientSet webhookName s of
        (Inl err', s') \<Rightarrow> selectLoop clientSet candidatesNames (Some err') s'
      | (Inr wh, s') \<Rightarrow> ((Some wh, None), s'))"

definition selectWebhookConfFormCandidates ::
  "'s clientgo_Interface \<Rightarrow> string list \<Rightarrow> 's
     \<Rightarrow> (MutatingWebhookConfiguration option \<times> error option) \<times> 's" where
  "selectWebhookConfFormCandidates clientSet candidatesNames s =
     selectLoop clientSet candidatesNames None s"

text \<open>
  The function that \<^verbatim>\<open>PatchMutatingWebhook\<close> hands to \<^verbatim>\<open>retry.RetryOnConflict\<close>: select,
  mutate, write. A nil \<^verbatim>\<open>whConf\<close> with a nil error panics in the mutation step, which
  reads \<^verbatim>\<open>whConf.Webhooks\<close>.
\<close>

definition patchAttempt ::
  "'s clientgo_Interface \<Rightarrow> string list \<Rightarrow> string \<Rightarrow> LabelSelectorRequirement \<Rightarrow> 's
     \<Rightarrow> unit result \<times> 's" where
  "patchAttempt clientSet candidatesNames webhookNameToChange requiredLabelSelector s =
     (case selectWebhookConfFormCandidates clientSet candidatesNames s of
        ((_, Some err), s1) \<Rightarrow> (Err err, s1)
      | ((None, None), s1) \<Rightarrow> (Panic ''invalid memory address or nil pointer dereference'', s1)
      | ((Some whConf, None), s1) \<Rightarrow>
          (case addNamespaceSelectorIfNotPresent whConf webhookNameToChange requiredLabelSelector of
             Err err \<Rightarrow> (Err err, s1)
           | Panic p \<Rightarrow> (Panic p, s1)
           | Ok whConf' \<Rightarrow>
               (case MutatingWebhookConfigurations_Update clientSet whConf' s1 of
                  (Some err, s2) \<Rightarrow> (Err err, s2)
                | (None, s2) \<Rightarrow> (Ok (), s2))))"

text \<open>\<^verbatim>\<open>wait.Backoff\<close>: only the number of steps is modelled, not the waiting times.\<close>

record Backoff =
  Steps :: int

text \<open>
  Modelled from the spec: \<^verbatim>\<open>retry.RetryOnConflict\<close> belongs to the client library and is
  not among the sources. The cycle is run again after an error that the predicate accepts
  (a conflict), up to the number of attempts of the backoff; when the attempts are used up
  the last such error is returned; any other error, a success or a panic ends the loop at
  once. The argument \<open>lastErr\<close> is the last conflict so far.
\<close>

fun retryLoop ::
  "nat \<Rightarrow> (error \<Rightarrow> bool) \<Rightarrow> ('s \<Rightarrow> unit result \<times> 's) \<Rightarrow> error option \<Rightarrow> 's
     \<Rightarrow> unit result \<times> 's" where
  "retryLoop 0 retriable fn lastErr s =
     (case lastErr of None \<Rightarrow> (Ok (), s) | Some err \<Rightarrow> (Err err, s))"
| "retryLoop (Suc steps) retriable fn lastErr s =
     (case fn s of
        (Ok u, s') \<Rightarrow> (Ok (), s')
      | (Panic p, s') \<Rightarrow> (Panic p, s')
      | (Err err, s') \<Rightarrow>
          (if retriable err then retryLoop steps retriable fn (Some err) s'
           else (Err err, s')))"

definition RetryOnConflict ::
  "(error \<Rightarrow> bool) \<Rightarrow> Backoff \<Rightarrow> ('s \<Rightarrow> unit result \<times> 's) \<Rightarrow> 's \<Rightarrow> unit result \<times> 's" where
  "RetryOnConflict IsConflict backoff fn s = retryLoop (nat (Steps backoff)) IsConflict fn None s"

text \<open>
  \<^verbatim>\<open>PatchMutatingWebhook\<close>. The conflict predicate \<^verbatim>\<open>errors.IsConflict\<close> and the backoff
  \<^verbatim>\<open>retry.DefaultRetry\<close> of the client library are parameters.
\<close>

definition PatchMutatingWebhook ::
  "(error \<Rightarrow> bool) \<Rightarrow> Backoff \<Rightarrow> 's kubernetes_Client \<Rightarrow> 's \<Rightarrow> unit result \<times> 's" where
  "PatchMutatingWebhook IsConflict DefaultRetry kubeClient s =
     (case Clientset kubeClient of
        Inl err \<Rightarrow> (Err err, s)
      | Inr clientSet \<Rightarrow>
          (let primary = ''istio-revision-tag-default'';
               secondary = ''istio-sidecar-injector'';
               candidatesNames = [primary, secondary];
               webhookNameToChange = ''auto.sidecar-injector.istio.io'';
               requiredLabelSelector =
                 \<lparr>Key = ''gardener.cloud/purpose'', Operator = ''NotIn'',
                  Values = Some [''kube-system'']\<rparr>
           in RetryOnConflict IsConflict DefaultRetry
                (patchAttempt clientSet candidatesNames webhookNameToChange requiredLabelSelector) s))"


fun attemptState :: "('s \<Rightarrow> unit result \<times> 's) \<Rightarrow> nat \<Rightarrow> 's \<Rightarrow> 's" where
  "attemptState fn 0 s = s"
| "attemptState fn (Suc k) s = attemptState fn k (snd (fn s))"

definition conflictAt ::
  "(error \<Rightarrow> bool) \<Rightarrow> ('s \<Rightarrow> unit result \<times> 's) \<Rightarrow> 's \<Rightarrow> nat \<Rightarrow> bool" where
  "conflictAt IsConflict fn s k =
     (case fst (fn (attemptState fn k s)) of Err e \<Rightarrow> IsConflict e | Ok u \<Rightarrow> False | Panic p \<Rightarrow> False)"

section \<open>Install, Uninstall and ResetProxy\<close>

text \<open>
  \<^verbatim>\<open>istioctl.Commander\<close>: each capability is a call on the cluster. The version type
  \<open>'v\<close> of \<^verbatim>\<open>istioctl.Version\<close> and the kube client \<open>'k\<close> that the provider retrieves
  are opaque to the performer.
\<close>

record 's Commander =
  Commander_Install :: "string \<Rightarrow> string \<Rightarrow> Logger \<Rightarrow> 's \<Rightarrow> error option \<times> 's"
  Commander_Upgrade :: "string \<Rightarrow> string \<Rightarrow> Logger \<Rightarrow> 's \<Rightarrow> error option \<times> 's"
  Commander_Uninstall :: "string \<Rightarrow> Logger \<Rightarrow> 's \<Rightarrow> error option \<times> 's"
  Commander_Version :: "string \<Rightarrow> Logger \<Rightarrow> 's \<Rightarrow> (error + string) \<times> 's"

text \<open>\<^verbatim>\<open>istioConfig.IstioProxyConfig\<close>; a \<^verbatim>\<open>time.Duration\<close> counts nanoseconds.\<close>

record 'k IstioProxyConfig =
  cfg_Context :: Context
  ImagePrefix :: string
  ImageVersion :: string
  RetriesCount :: int
  DelayBetweenRetries :: int
  Timeout :: int
  Interval :: int
  Kubeclient :: 'k
  Debug :: bool
  Log :: Logger

text \<open>
  \<^verbatim>\<open>DefaultIstioPerformer\<close> with its three collaborators: \<^verbatim>\<open>resolver.GetCommander\<close>,
  \<^verbatim>\<open>istioProxyReset.Run\<close> and \<^verbatim>\<open>provider.RetrieveFrom\<close>.
\<close>

record ('v, 'k, 's) DefaultIstioPerformer =
  resolver_GetCommander :: "'v \<Rightarrow> error + 's Commander"
  istioProxyReset_Run :: "'k IstioProxyConfig \<Rightarrow> 's \<Rightarrow> error option \<times> 's"
  provider_RetrieveFrom :: "string \<Rightarrow> Logger \<Rightarrow> error + 'k"

definition time_Second :: int where
  "time_Second = 1000000000"

definition time_Minute :: int where
  "time_Minute = 60 * time_Second"

definition istioImagePrefix :: string where
  "istioImagePrefix = ''istio/proxyv2''"

definition retriesCount :: int where
  "retriesCount = 5"

definition delayBetweenRetries :: int where
  "delayBetweenRetries = 5 * time_Second"

definition timeout :: int where
  "timeout = 5 * time_Minute"

definition interval :: int where
  "interval = 12 * time_Second"

text \<open>
  \<^verbatim>\<open>Uninstall\<close>. \<^verbatim>\<open>istioctl.VersionFromString\<close> is a parameter, as is
  \<^verbatim>\<open>manifest.ExtractIstioOperatorContextFrom\<close> of \<^verbatim>\<open>Install\<close>: both belong to other
  packages.
\<close>

definition Uninstall ::
  "(string \<Rightarrow> error + 'v) \<Rightarrow> ('v, 'k, 's) DefaultIstioPerformer \<Rightarrow> 's kubernetes_Client
     \<Rightarrow> string \<Rightarrow> Logger \<Rightarrow> 's \<Rightarrow> error option \<times> 's" where
  "Uninstall VersionFromString c kubeClientSet version logger s =
     (case VersionFromString version of
        Inl err \<Rightarrow> (errors_Wrap (Some err) ''Error parsing version'', s)
      | Inr execVersion \<Rightarrow>
          (case resolver_GetCommander c execVersion of
             Inl err \<Rightarrow> (Some err, s)
           | Inr commander \<Rightarrow>
               (case Commander_Uninstall commander (Kubeconfig kubeClientSet) logger s of
                  (Some err, s1) \<Rightarrow>
                    (errors_Wrap (Some err) ''Error occurred when calling istioctl'', s1)
                | (None, s1) \<Rightarrow>
                    (case Clientset kubeClientSet of
                       Inl err \<Rightarrow> (Some err, s1)
                     | Inr kubeClient \<Rightarrow>
                         (let policy = DeletePropagationForeground in
                          case Namespaces_Delete kubeClient ''istio-system''
                                 \<lparr>PropagationPolicy = Some policy\<rparr> s1 of
                            (Some err, s2) \<Rightarrow> (Some err, s2)
                          | (None, s2) \<Rightarrow> (None, s2))))))"

definition Install ::
  "(string \<Rightarrow> error + 'v) \<Rightarrow> (string \<Rightarrow> error + string)
     \<Rightarrow> ('v, 'k, 's) DefaultIstioPerformer \<Rightarrow> string \<Rightarrow> string \<Rightarrow> string \<Rightarrow> Logger
     \<Rightarrow> 's \<Rightarrow> error option \<times> 's" where
  "Install VersionFromString ExtractIstioOperatorContextFrom c kubeConfig istioChart version logger s =
     (case VersionFromString version of
        Inl err \<Rightarrow> (errors_Wrap (Some err) ''Error parsing version'', s)
      | Inr execVersion \<Rightarrow>
          (case ExtractIstioOperatorContextFrom istioChart of
             Inl err \<Rightarrow> (Some err, s)
           | Inr istioOperatorManifest \<Rightarrow>
               (case resolver_GetCommander c execVersion of
                  Inl err \<Rightarrow> (Some err, s)
                | Inr commander \<Rightarrow>
                    (case Commander_Install commander istioOperatorManifest kubeConfig logger s of
                       (Some err, s1) \<Rightarrow>
                         (errors_Wrap (Some err) ''Error occurred when calling istioctl'', s1)
                     | (None, s1) \<Rightarrow> (None, s1)))))"

definition ResetProxy ::
  "('v, 'k, 's) DefaultIstioPerformer \<Rightarrow> Context \<Rightarrow> string \<Rightarrow> string \<Rightarrow> Logger
     \<Rightarrow> 's \<Rightarrow> error option \<times> 's" where
  "ResetProxy c context kubeConfig proxyImageVersion logger s =
     (case provider_RetrieveFrom c kubeConfig logger of
        Inl err \<Rightarrow> (Some err, s)
      | Inr kubeClient \<Rightarrow>
          (let cfg = \<lparr>cfg_Context = context,
                      ImagePrefix = istioImagePrefix,
                      ImageVersion = proxyImageVersion @ ''-distroless'',
                      RetriesCount = retriesCount,
                      DelayBetweenRetries = delayBetweenRetries,
                      Timeout = timeout,
                      Interval = interval,
                      Kubeclient = kubeClient,
                      Debug = False,
                      Log = logger\<rparr>
           in case istioProxyReset_Run c cfg s of
                (Some err, s1) \<Rightarrow> (errors_Wrap (Some err) ''Istio proxy reset error'', s1)
              | (None, s1) \<Rightarrow> (None, s1)))"

section \<open>The target version of a chart\<close>

record chartValues_IstioPilot =
  IstioPilot_Version :: string

record chartValues_Images =
  IstioPilot :: chartValues_IstioPilot

record chartValues_Global =
  Images :: chartValues_Images

record chartValues =
  Global :: chartValues_Global

record chart_Metadata =
  AppVersion :: string

text \<open>
  \<^verbatim>\<open>helmChart.Chart\<close>: the values are the nested mapping of the chart, of a type \<open>'m\<close>
  that only the JSON functions look into; \<^verbatim>\<open>Metadata\<close> is a pointer.
\<close>

record 'm helmChart =
  chart_Values :: 'm
  Metadata :: "chart_Metadata option"

record chart_Workspace =
  ResourceDir :: string

definition getTargetVersionFromAppVersionInChartDefinition :: "'m helmChart \<Rightarrow> string result" where
  "getTargetVersionFromAppVersionInChartDefinition helmChart =
     (case Metadata helmChart of
        None \<Rightarrow> Panic ''invalid memory address or nil pointer dereference''
      | Some metadata \<Rightarrow> Ok (AppVersion metadata))"

text \<open>
  \<^verbatim>\<open>getTargetVersionFromPilotInChartValues\<close>; \<^verbatim>\<open>json.Marshal\<close> of the values and
  \<^verbatim>\<open>json.Unmarshal\<close> into \<^verbatim>\<open>chartValues\<close> are parameters.
\<close>

definition getTargetVersionFromPilotInChartValues ::
  "('m \<Rightarrow> error + string) \<Rightarrow> (string \<Rightarrow> error + chartValues) \<Rightarrow> 'm helmChart
     \<Rightarrow> error + string" where
  "getTargetVersionFromPilotInChartValues json_Marshal json_Unmarshal helmChart =
     (case json_Marshal (chart_Values helmChart) of
        Inl err \<Rightarrow> Inl err
      | Inr mapAsJSON \<Rightarrow>
          (case json_Unmarshal mapAsJSON of
             Inl err \<Rightarrow> Inl err
           | Inr chartValues \<Rightarrow> Inr (IstioPilot_Version (IstioPilot (Images (Global chartValues))))))"

text \<open>
  \<^verbatim>\<open>getTargetVersionFromIstioChart\<close>; the workspace factory, \<^verbatim>\<open>filepath.Join\<close> and
  \<^verbatim>\<open>loader.Load\<close> are parameters.
\<close>

definition getTargetVersionFromIstioChart ::
  "(string \<Rightarrow> string \<Rightarrow> string) \<Rightarrow> (string \<Rightarrow> error + 'm helmChart)
     \<Rightarrow> ('m \<Rightarrow> error + string) \<Rightarrow> (string \<Rightarrow> error + chartValues)
     \<Rightarrow> (string \<Rightarrow> error + chart_Workspace) \<Rightarrow> string \<Rightarrow> string \<Rightarrow> string result" where
  "getTargetVersionFromIstioChart filepath_Join loader_Load json_Marshal json_Unmarshal
       workspace_Get branch istioChart =
     (case workspace_Get branch of
        Inl err \<Rightarrow> Err err
      | Inr ws \<Rightarrow>
          (case loader_Load (filepath_Join (ResourceDir ws) istioChart) of
             Inl err \<Rightarrow> Err err
           | Inr istioHelmChart \<Rightarrow>
               (case getTargetVersionFromPilotInChartValues json_Marshal json_Unmarshal istioHelmChart of
                  Inl err \<Rightarrow> Err err
                | Inr pilotVersion \<Rightarrow>
                    (if pilotVersion \<noteq> '''' then Ok pilotVersion
                     else
                       (case getTargetVersionFromAppVersionInChartDefinition istioHelmChart of
                          Panic p \<Rightarrow> Panic p
                        | Err err \<Rightarrow> Err err
                        | Ok appVersion \<Rightarrow>
                            (if appVersion \<noteq> '''' then Ok appVersion
                             else Err (New ''Target Istio version could not be found neither in Chart.yaml nor in helm values'')))))))"

section \<open>Mapping the output of the version command\<close>

record ClientVersion =
  ClientVersion_Version :: string

record MeshInfo =
  MeshInfo_Version :: string

record MeshComponent =
  Component :: string
  Info :: "MeshInfo option"

record DataPlaneVersion =
  IstioVersion :: string

text \<open>
  \<^verbatim>\<open>IstioVersionOutput\<close>: the client version is a pointer and the two lists are slices of
  pointers; \<open>None\<close> is nil.
\<close>

record IstioVersionOutput =
  out_ClientVersion :: "ClientVersion option"
  out_MeshVersion :: "MeshComponent option list"
  out_DataPlaneVersion :: "DataPlaneVersion option list"

record IstioStatus =
  status_ClientVersion :: string
  TargetVersion :: string
  PilotVersion :: string
  status_DataPlaneVersion :: string

definition getVersionFromJSON :: "string \<Rightarrow> IstioVersionOutput \<Rightarrow> string result" where
  "getVersionFromJSON versionType json =
     (if versionType = ''client'' then
        (case out_ClientVersion json of
           None \<Rightarrow> Panic ''invalid memory address or nil pointer dereference''
         | Some clientVersion \<Rightarrow> Ok (ClientVersion_Version clientVersion))
      else if versionType = ''pilot'' then
        (if length (out_MeshVersion json) > 0 then
           (case out_MeshVersion json ! 0 of
              None \<Rightarrow> Panic ''invalid memory address or nil pointer dereference''
            | Some meshComponent \<Rightarrow>
                (case Info meshComponent of
                   None \<Rightarrow> Panic ''invalid memory address or nil pointer dereference''
                 | Some info \<Rightarrow> Ok (MeshInfo_Version info)))
         else Ok '''')
      else if versionType = ''dataPlane'' then
        (if length (out_DataPlaneVersion json) > 0 then
           (case out_DataPlaneVersion json ! 0 of
              None \<Rightarrow> Panic ''invalid memory address or nil pointer dereference''
            | Some dataPlaneVersion \<Rightarrow> Ok (IstioVersion dataPlaneVersion))
         else Ok '''')
      else Ok '''')"

text \<open>
  \<^verbatim>\<open>bytes.IndexRune(s, r)\<close> for a rune below \<^verbatim>\<open>0x80\<close> such as \<^verbatim>\<open>'{'\<close>: the index of
  the first byte equal to it, or \<open>-1\<close>.
\<close>

fun IndexRune :: "string \<Rightarrow> char \<Rightarrow> int" where
  "IndexRune [] r = - 1"
| "IndexRune (b # s) r =
     (if b = r then 0
      else (let i = IndexRune s r in if i < 0 then - 1 else i + 1))"

text \<open>The slice expression \<^verbatim>\<open>s[i:]\<close>, which panics when \<open>i\<close> is out of range.\<close>

definition sliceFrom :: "string \<Rightarrow> int \<Rightarrow> string result" where
  "sliceFrom s i =
     (if i < 0 \<or> int (length s) < i then Panic ''slice bounds out of range''
      else Ok (drop (nat i) s))"

text \<open>
  \<^verbatim>\<open>mapVersionToStruct\<close>; \<^verbatim>\<open>json.Unmarshal\<close> into \<^verbatim>\<open>IstioVersionOutput\<close> is a
  parameter. The fields of the result are computed in the order in which they are written.
\<close>

definition mapVersionToStruct ::
  "(string \<Rightarrow> error + IstioVersionOutput) \<Rightarrow> string \<Rightarrow> string \<Rightarrow> IstioStatus result" where
  "mapVersionToStruct json_Unmarshal versionOutput targetVersion =
     (if length versionOutput = 0
      then Err (New ''the result of the version command is empty'')
      else
        (case (if IndexRune versionOutput CHR ''{'' \<noteq> 0
               then sliceFrom versionOutput (IndexRune versionOutput CHR ''{'')
               else Ok versionOutput) of
           Panic p \<Rightarrow> Panic p
         | Err err \<Rightarrow> Err err
         | Ok versionOutput' \<Rightarrow>
             (case json_Unmarshal versionOutput' of
                Inl err \<Rightarrow> Err err
              | Inr version \<Rightarrow>
                  (case getVersionFromJSON ''client'' version of
                     Panic p \<Rightarrow> Panic p
                   | Err err \<Rightarrow> Err err
                   | Ok clientVersion \<Rightarrow>
                       (case getVersionFromJSON ''pilot'' version of
                          Panic p \<Rightarrow> Panic p
                        | Err err \<Rightarrow> Err err
                        | Ok pilotVersion \<Rightarrow>
                            (case getVersionFromJSON ''dataPlane'' version of
                               Panic p \<Rightarrow> Panic p
                             | Err err \<Rightarrow> Err err
                             | Ok dataPlaneVersion \<Rightarrow>
                                 Ok \<lparr>status_ClientVersion = clientVersion,
                                     TargetVersion = targetVersion,
                                     PilotVersion = pilotVersion,
                                     status_DataPlaneVersion = dataPlaneVersion\<rparr>))))))"

section \<open>A test double for the cluster\<close>

text \<open>
  A cluster in memory, used to run the operations on concrete inputs: the stored
  configurations by name, the number of updates that are still to be rejected with a
  conflict, and the log of mutating calls.
\<close>

record cluster =
  stored :: "(string \<times> MutatingWebhookConfiguration) list"
  conflicts :: nat
  calls :: "string list"

definition fakeGet :: "string \<Rightarrow> cluster \<Rightarrow> (error + MutatingWebhookConfiguration) \<times> cluster" where
  "fakeGet name s =
     (case map_of (stored s) name of
        None \<Rightarrow> (Inl (StatusError ''NotFound'' name), s)
      | Some whConf \<Rightarrow> (Inr whConf, s))"

definition fakeUpdate :: "MutatingWebhookConfiguration \<Rightarrow> cluster \<Rightarrow> error option \<times> cluster" where
  "fakeUpdate whConf s =
     (if 0 < conflicts s
      then (Some (StatusError ''Conflict'' (whc_Name whConf)), s\<lparr>conflicts := conflicts s - 1\<rparr>)
      else (None, s\<lparr>stored := (whc_Name whConf, whConf) # stored s,
                     calls := calls s @ [''update'']\<rparr>))"

definition fakeDelete ::
  "error option \<Rightarrow> string \<Rightarrow> DeleteOptions \<Rightarrow> cluster \<Rightarrow> error option \<times> cluster" where
  "fakeDelete outcome name opts s = (outcome, s\<lparr>calls := calls s @ [''delete '' @ name]\<rparr>)"

definition fakeClientSet :: "error option \<Rightarrow> cluster clientgo_Interface" where
  "fakeClientSet deleteOutcome =
     \<lparr>MutatingWebhookConfigurations_Get = fakeGet,
      MutatingWebhookConfigurations_Update = fakeUpdate,
      Namespaces_Delete = fakeDelete deleteOutcome\<rparr>"

definition fakeIsConflict :: "error \<Rightarrow> bool" where
  "fakeIsConflict e =
     (case e of
        StatusError reason message \<Rightarrow> reason = ''Conflict''
      | New m \<Rightarrow> False
      | WithMessage c m \<Rightarrow> False)"

definition fakeCommander :: "cluster Commander" where
  "fakeCommander =
     \<lparr>Commander_Install = (\<lambda>m k l s. (None, s\<lparr>calls := calls s @ [''install'']\<rparr>)),
      Commander_Upgrade = (\<lambda>m k l s. (None, s\<lparr>calls := calls s @ [''upgrade'']\<rparr>)),
      Commander_Uninstall = (\<lambda>k l s. (None, s\<lparr>calls := calls s @ [''uninstall'']\<rparr>)),
      Commander_Version = (\<lambda>k l s. (Inr ''{}'', s))\<rparr>"

definition fakeKubeClient :: "error option \<Rightarrow> cluster kubernetes_Client" where
  "fakeKubeClient deleteOutcome =
     \<lparr>Kubeconfig = ''kubeconfig'', Clientset = Inr (fakeClientSet deleteOutcome)\<rparr>"

definition exampleRule :: LabelSelectorRequirement where
  "exampleRule =
     \<lparr>Key = ''gardener.cloud/purpose'', Operator = ''NotIn'', Values = Some [''kube-system'']\<rparr>"

definition exampleWebhook :: "string \<Rightarrow> LabelSelectorRequirement list \<Rightarrow> MutatingWebhook" where
  "exampleWebhook name expressions =
     \<lparr>wh_Name = name,
      NamespaceSelector = Some \<lparr>MatchLabels = [], MatchExpressions = expressions\<rparr>,
      ObjectSelector = None\<rparr>"

definition exampleConf :: "MutatingWebhook list \<Rightarrow> MutatingWebhookConfiguration" where
  "exampleConf ws =
     \<lparr>whc_Name = ''istio-sidecar-injector'', ResourceVersion = ''1'', Webhooks = ws\<rparr>"

definition exampleCluster :: "MutatingWebhook list \<Rightarrow> nat \<Rightarrow> cluster" where
  "exampleCluster ws n =
     \<lparr>stored = [(''istio-sidecar-injector'', exampleConf ws)], conflicts = n, calls = []\<rparr>"

definition fakePerformer :: "(string, nat, cluster) DefaultIstioPerformer" where
  "fakePerformer =
     \<lparr>resolver_GetCommander =
        (\<lambda>v. if v = ''1.11.4'' then Inr fakeCommander else Inl (New ''unsupported version'')),
      istioProxyReset_Run =
        (\<lambda>cfg s. (Some (New ''reset failed''),
                   s\<lparr>calls := calls s @ [''reset '' @ ImagePrefix cfg @ '':'' @ ImageVersion cfg]\<rparr>)),
      provider_RetrieveFrom = (\<lambda>kubeConfig logger. Inr 0)\<rparr>"

definition fakeVersionFromString :: "string \<Rightarrow> error + string" where
  "fakeVersionFromString version =
     (if version = [] then Inl (New ''empty version'') else Inr version)"

definition fakeExtract :: "string \<Rightarrow> error + string" where
  "fakeExtract istioChart =
     (if istioChart = ''istio'' then Inr ''manifest'' else Inl (New ''no operator file''))"

text \<open>
  A chart whose values are the text of the pilot version, with JSON functions that
  decode exactly that, and a decoder of version outputs that knows two outputs.
\<close>

definition fakeLoad :: "string \<Rightarrow> string \<Rightarrow> string \<Rightarrow> error + string helmChart" where
  "fakeLoad pilotVersion appVersion path =
     Inr \<lparr>chart_Values = pilotVersion, Metadata = Some \<lparr>AppVersion = appVersion\<rparr>\<rparr>"

definition fakeUnmarshalValues :: "string \<Rightarrow> error + chartValues" where
  "fakeUnmarshalValues mapAsJSON =
     Inr \<lparr>Global = \<lparr>Images = \<lparr>IstioPilot = \<lparr>IstioPilot_Version = mapAsJSON\<rparr>\<rparr>\<rparr>\<rparr>"

definition fakeUnmarshal :: "string \<Rightarrow> error + IstioVersionOutput" where
  "fakeUnmarshal versionOutput =
     (if versionOutput = ''{}''
      then Inr \<lparr>out_ClientVersion = None, out_MeshVersion = [], out_DataPlaneVersion = []\<rparr>
      else if versionOutput = ''{client}''
      then Inr \<lparr>out_ClientVersion = Some \<lparr>ClientVersion_Version = ''1.11.0''\<rparr>,
                out_MeshVersion = [], out_DataPlaneVersion = []\<rparr>
      else Inl (New ''invalid character''))"

section \<open>Properties of the mutation step\<close>

lemma hasRequiredLabel_iff:
  "hasRequiredLabel ms r = (r \<in> set ms)"
  by (induction ms) (auto simp: DeepEqual_def)

lemma scanWebhooks_no_match:
  "(\<forall>x \<in> set ws. wh_Name x \<noteq> n) \<Longrightarrow> scanWebhooks ws n r = Ok None"
  by (induction ws) auto

lemma scanWebhooks_first_match:
  "(\<forall>x \<in> set pre. wh_Name x \<noteq> n) \<Longrightarrow> wh_Name w = n \<Longrightarrow>
   scanWebhooks (pre @ w # post) n r =
     (case patchWebhook w r of
        Ok w' \<Rightarrow> Ok (Some (pre @ w' # post)) | Err e \<Rightarrow> Err e | Panic p \<Rightarrow> Panic p)"
  by (induction pre) (auto split: result.splits option.splits)

lemma scanWebhooks_None_iff:
  "(scanWebhooks ws n r = Ok None) = (\<forall>x \<in> set ws. wh_Name x \<noteq> n)"
  by (induction ws) (auto simp: patchWebhook_def Let_def split: result.splits option.splits)

lemma scanWebhooks_not_Err:
  "scanWebhooks ws n r \<noteq> Err e"
  by (induction ws) (auto simp: patchWebhook_def Let_def split: result.splits option.splits)

lemma patchWebhook_eq:
  "patchWebhook w r =
     (case NamespaceSelector w of
        None \<Rightarrow> Panic ''invalid memory address or nil pointer dereference''
      | Some sel \<Rightarrow>
          Ok (w\<lparr>NamespaceSelector := Some (sel\<lparr>MatchExpressions :=
                 (if r \<in> set (MatchExpressions sel) then MatchExpressions sel
                  else MatchExpressions sel @ [r])\<rparr>)\<rparr>))"
  by (cases w) (auto simp: patchWebhook_def Let_def hasRequiredLabel_iff split: option.splits)

lemma patchWebhook_present:
  "NamespaceSelector w = Some sel \<Longrightarrow> r \<in> set (MatchExpressions sel) \<Longrightarrow> patchWebhook w r = Ok w"
  by (simp add: patchWebhook_def Let_def hasRequiredLabel_iff)

lemma patchWebhook_twice:
  "patchWebhook w r = Ok w' \<Longrightarrow> patchWebhook w' r = Ok w' \<and> wh_Name w' = wh_Name w"
  by (auto simp: patchWebhook_def Let_def hasRequiredLabel_iff split: option.splits if_splits)

lemma scanWebhooks_twice:
  "scanWebhooks ws n r = Ok (Some ws') \<Longrightarrow> scanWebhooks ws' n r = Ok (Some ws')"
proof (induction ws arbitrary: ws')
  case Nil
  then show ?case by simp
next
  case (Cons w ws)
  show ?case
  proof (cases "wh_Name w = n")
    case True
    with Cons.prems obtain w' where w': "patchWebhook w r = Ok w'" "ws' = w' # ws"
      by (auto split: result.splits)
    with True show ?thesis using patchWebhook_twice [OF w'(1)] by simp
  next
    case False
    with Cons.prems obtain ws2 where ws2: "scanWebhooks ws n r = Ok (Some ws2)" "ws' = w # ws2"
      by (auto split: result.splits option.splits)
    with False Cons.IH [OF ws2(1)] show ?thesis by simp
  qed
qed

lemma add_twice:
  assumes "addNamespaceSelectorIfNotPresent c n r = Ok c'" and "Webhooks c2 = Webhooks c'"
  shows "addNamespaceSelectorIfNotPresent c2 n r = Ok c2"
proof -
  from assms(1) obtain ws where ws: "scanWebhooks (Webhooks c) n r = Ok (Some ws)" "c' = c\<lparr>Webhooks := ws\<rparr>"
    by (auto simp: addNamespaceSelectorIfNotPresent_def split: result.splits option.splits)
  then have "scanWebhooks (Webhooks c2) n r = Ok (Some (Webhooks c2))"
    using scanWebhooks_twice [OF ws(1)] assms(2) by simp
  then show ?thesis by (simp add: addNamespaceSelectorIfNotPresent_def)
qed

lemma add_present:
  assumes "\<forall>x \<in> set pre. wh_Name x \<noteq> n" and "wh_Name w = n" and "Webhooks c = pre @ w # post"
    and "NamespaceSelector w = Some sel" and "r \<in> set (MatchExpressions sel)"
  shows "addNamespaceSelectorIfNotPresent c n r = Ok c"
proof -
  have "scanWebhooks (Webhooks c) n r = Ok (Some (Webhooks c))"
    using scanWebhooks_first_match [OF assms(1,2), of post r] patchWebhook_present [OF assms(4,5)] assms(3)
    by simp
  then show ?thesis by (simp add: addNamespaceSelectorIfNotPresent_def)
qed




lemma conflictAt_Suc:
  "conflictAt isC fn s (Suc j) = conflictAt isC fn (snd (fn s)) j"
  by (simp add: conflictAt_def)

lemma retryLoop_decided:
  "k < steps \<Longrightarrow> \<forall>j<k. conflictAt isC fn s j \<Longrightarrow> \<not> conflictAt isC fn s k \<Longrightarrow>
   retryLoop steps isC fn lastErr s = fn (attemptState fn k s)"
proof (induction k arbitrary: steps s lastErr)
  case 0
  then obtain m where m: "steps = Suc m" by (cases steps) auto
  from 0 show ?case unfolding m
    by (cases "fn s") (auto simp: conflictAt_def split: result.splits)
next
  case (Suc k)
  then obtain m where m: "steps = Suc m" "k < m" by (cases steps) auto
  from Suc.prems have c0: "conflictAt isC fn s 0" by blast
  then obtain e s' where e: "fn s = (Err e, s')" "isC e"
    by (cases "fn s") (auto simp: conflictAt_def split: result.splits)
  have "\<forall>j<k. conflictAt isC fn s' j"
  proof (intro allI impI)
    fix j assume "j < k"
    then have "conflictAt isC fn s (Suc j)" using Suc.prems(2) by simp
    then show "conflictAt isC fn s' j" using e(1) by (simp add: conflictAt_Suc)
  qed
  moreover have "\<not> conflictAt isC fn s' k"
    using Suc.prems(3) e(1) by (simp add: conflictAt_Suc)
  ultimately have "retryLoop m isC fn (Some e) s' = fn (attemptState fn k s')"
    using Suc.IH [of m s' "Some e"] m(2) by simp
  then show ?case unfolding m using e by simp
qed

lemma retryLoop_exhausted:
  "0 < steps \<Longrightarrow> \<forall>j<steps. conflictAt isC fn s j \<Longrightarrow>
   retryLoop steps isC fn lastErr s = fn (attemptState fn (steps - 1) s)"
proof (induction steps arbitrary: s lastErr)
  case 0
  then show ?case by simp
next
  case (Suc m)
  from Suc.prems have c0: "conflictAt isC fn s 0" by blast
  then obtain e s' where e: "fn s = (Err e, s')" "isC e"
    by (cases "fn s") (auto simp: conflictAt_def split: result.splits)
  show ?case
  proof (cases m)
    case 0
    with e show ?thesis by simp
  next
    case (Suc m')
    have "\<forall>j<m. conflictAt isC fn s' j"
    proof (intro allI impI)
      fix j assume "j < m"
      then have "conflictAt isC fn s (Suc j)" using Suc.prems(2) by simp
      then show "conflictAt isC fn s' j" using e(1) by (simp add: conflictAt_Suc)
    qed
    then have "retryLoop m isC fn (Some e) s' = fn (attemptState fn (m - 1) s')"
      using Suc.IH [of s' "Some e"] Suc by simp
    then show ?thesis using e Suc by simp
  qed
qed


section \<open>Properties of the version mapping\<close>

lemma IndexRune_range:
  "- 1 \<le> IndexRune s c \<and> IndexRune s c \<le> int (length s)"
  by (induction s) (auto simp: Let_def)

lemma IndexRune_absent:
  "(IndexRune s c = - 1) = (c \<notin> set s)"
proof (induction s)
  case Nil
  then show ?case by simp
next
  case (Cons b s)
  have "- 1 \<le> IndexRune s c" using IndexRune_range [of s c] by simp
  with Cons show ?case by (auto simp: Let_def)
qed

lemma IndexRune_present:
  "c \<in> set s \<Longrightarrow> 0 \<le> IndexRune s c \<and> drop (nat (IndexRune s c)) s = dropWhile (\<lambda>b. b \<noteq> c) s"
proof (induction s)
  case Nil
  then show ?case by simp
next
  case (Cons b s)
  show ?case
  proof (cases "b = c")
    case True
    then show ?thesis by simp
  next
    case False
    with Cons have "0 \<le> IndexRune s c" "drop (nat (IndexRune s c)) s = dropWhile (\<lambda>b. b \<noteq> c) s"
      by auto
    with False show ?thesis by (simp add: Let_def nat_add_distrib)
  qed
qed

lemma trimmed_present:
  assumes "c \<in> set s"
  shows "(if IndexRune s c \<noteq> 0 then sliceFrom s (IndexRune s c) else Ok s)
           = Ok (dropWhile (\<lambda>b. b \<noteq> c) s)"
proof -
  from IndexRune_present [OF assms] IndexRune_range [of s c]
  have r: "0 \<le> IndexRune s c" "IndexRune s c \<le> int (length s)"
    "drop (nat (IndexRune s c)) s = dropWhile (\<lambda>b. b \<noteq> c) s" by auto
  show ?thesis
  proof (cases "IndexRune s c = 0")
    case True
    with r(3) show ?thesis by simp
  next
    case False
    with r show ?thesis by (simp add: sliceFrom_def)
  qed
qed

lemma mapVersionToStruct_defaults:
  assumes "CHR ''{'' \<in> set versionOutput"
    and "json_Unmarshal (dropWhile (\<lambda>b. b \<noteq> CHR ''{'') versionOutput) = Inr version"
    and "out_ClientVersion version = Some clientVersion"
    and "out_MeshVersion version = []" and "out_DataPlaneVersion version = []"
  shows "mapVersionToStruct json_Unmarshal versionOutput targetVersion
     = Ok \<lparr>status_ClientVersion = ClientVersion_Version clientVersion,
           TargetVersion = targetVersion, PilotVersion = '''', status_DataPlaneVersion = ''''\<rparr>"
proof -
  from assms(1) have ne: "versionOutput \<noteq> []" by auto
  show ?thesis
    using ne assms(2-) trimmed_present [OF assms(1)]
    by (simp add: mapVersionToStruct_def getVersionFromJSON_def)
qed

lemma mapVersionToStruct_example:
  "mapVersionToStruct fakeUnmarshal ''garbage-banner {client}'' ''1.11.4''
     = Ok \<lparr>status_ClientVersion = ''1.11.0'', TargetVersion = ''1.11.4'',
           PilotVersion = [], status_DataPlaneVersion = []\<rparr>"
  using mapVersionToStruct_defaults
    [where versionOutput = "''garbage-banner {client}''" and json_Unmarshal = fakeUnmarshal
       and version = "\<lparr>out_ClientVersion = Some \<lparr>ClientVersion_Version = ''1.11.0''\<rparr>,
                       out_MeshVersion = [], out_DataPlaneVersion = []\<rparr>"
       and clientVersion = "\<lparr>ClientVersion_Version = ''1.11.0''\<rparr>"
       and targetVersion = "''1.11.4''"]
  by (simp add: fakeUnmarshal_def)

lemma mapVersionToStruct_at_brace:
  "mapVersionToStruct json_Unmarshal (CHR ''{'' # rest) targetVersion
     = (case json_Unmarshal (CHR ''{'' # rest) of
          Inl err \<Rightarrow> Err err
        | Inr version \<Rightarrow>
            (case getVersionFromJSON ''client'' version of
               Panic p \<Rightarrow> Panic p
             | Err err \<Rightarrow> Err err
             | Ok clientVersion \<Rightarrow>
                 (case getVersionFromJSON ''pilot'' version of
                    Panic p \<Rightarrow> Panic p
                  | Err err \<Rightarrow> Err err
                  | Ok pilotVersion \<Rightarrow>
                      (case getVersionFromJSON ''dataPlane'' version of
                         Panic p \<Rightarrow> Panic p
                       | Err err \<Rightarrow> Err err
                       | Ok dataPlaneVersion \<Rightarrow>
                           Ok \<lparr>status_ClientVersion = clientVersion,
                               TargetVersion = targetVersion,
                               PilotVersion = pilotVersion,
                               status_DataPlaneVersion = dataPlaneVersion\<rparr>))))"
  by (simp add: mapVersionToStruct_def)

lemma mapVersionToStruct_trimmed:
  assumes "CHR ''{'' \<in> set versionOutput"
  shows "mapVersionToStruct json_Unmarshal versionOutput targetVersion
       = mapVersionToStruct json_Unmarshal
           (dropWhile (\<lambda>b. b \<noteq> CHR ''{'') versionOutput) targetVersion"
proof -
  let ?t = "dropWhile (\<lambda>b. b \<noteq> CHR ''{'') versionOutput"
  from assms have ne: "versionOutput \<noteq> []" by auto
  from assms have tne: "?t \<noteq> []" by (simp add: dropWhile_eq_Nil_conv)
  then have "hd ?t = CHR ''{''"
    using hd_dropWhile [of "\<lambda>b. b \<noteq> CHR ''{''" versionOutput] by simp
  with tne obtain rest where t: "?t = CHR ''{'' # rest" by (cases ?t) auto
  have tp: "(if IndexRune versionOutput CHR ''{'' \<noteq> 0
             then sliceFrom versionOutput (IndexRune versionOutput CHR ''{'')
             else Ok versionOutput) = Ok (CHR ''{'' # rest)"
    using trimmed_present [OF assms] t by simp
  have "mapVersionToStruct json_Unmarshal versionOutput targetVersion
          = mapVersionToStruct json_Unmarshal (CHR ''{'' # rest) targetVersion"
    unfolding mapVersionToStruct_at_brace
    by (simp only: mapVersionToStruct_def tp) (simp add: ne)
  then show ?thesis by (simp only: t)
qed

section \<open>Unfolding the test double\<close>

lemmas fake_defs = fakeKubeClient_def fakeClientSet_def fakeGet_def fakeUpdate_def fakeIsConflict_def
  exampleCluster_def exampleConf_def exampleWebhook_def exampleRule_def

section \<open>The claims about the webhook patch\<close>

text \<open>
  Claim C10. The mutation step has a strict frame. When \<open>w\<close> is the first entry whose
  name is the target name, with the entries \<open>pre\<close> before it and \<open>post\<close> after it, the
  step returns the configuration in which only the match expressions of the namespace
  selector of \<open>w\<close> may have grown by the required rule at the end; \<open>pre\<close>, \<open>post\<close> and
  every other field are as before, and \<open>post\<close> has no influence on the outcome. (A nil
  namespace selector of \<open>w\<close> makes the step panic before anything is written.) When no
  entry has the target name the step returns the error that names the entry and the
  configuration, and it returns an error in no other case.
\<close>

theorem addNamespaceSelectorIfNotPresent_frame:
  "((\<forall>x \<in> set pre. wh_Name x \<noteq> n) \<and> wh_Name w = n \<and> Webhooks whConf = pre @ w # post \<longrightarrow>
      addNamespaceSelectorIfNotPresent whConf n r =
        (case NamespaceSelector w of
           None \<Rightarrow> Panic ''invalid memory address or nil pointer dereference''
         | Some sel \<Rightarrow>
             Ok (whConf\<lparr>Webhooks :=
                   pre @ w\<lparr>NamespaceSelector := Some (sel\<lparr>MatchExpressions :=
                              (if r \<in> set (MatchExpressions sel) then MatchExpressions sel
                               else MatchExpressions sel @ [r])\<rparr>)\<rparr> # post\<rparr>)))
   \<and> ((\<forall>x \<in> set (Webhooks whConf). wh_Name x \<noteq> n) \<longrightarrow>
        addNamespaceSelectorIfNotPresent whConf n r =
          Err (New (''could not find webhook '' @ n @ '' in WebhookConfiguration '' @ whc_Name whConf)))
   \<and> ((\<exists>e. addNamespaceSelectorIfNotPresent whConf n r = Err e) \<longrightarrow>
        (\<forall>x \<in> set (Webhooks whConf). wh_Name x \<noteq> n))"
proof (intro conjI impI)
  assume a: "(\<forall>x \<in> set pre. wh_Name x \<noteq> n) \<and> wh_Name w = n \<and> Webhooks whConf = pre @ w # post"
  then have "scanWebhooks (Webhooks whConf) n r =
     (case patchWebhook w r of
        Ok w' \<Rightarrow> Ok (Some (pre @ w' # post)) | Err e \<Rightarrow> Err e | Panic p \<Rightarrow> Panic p)"
    using scanWebhooks_first_match [of pre n w post r] by simp
  then show "addNamespaceSelectorIfNotPresent whConf n r =
        (case NamespaceSelector w of
           None \<Rightarrow> Panic ''invalid memory address or nil pointer dereference''
         | Some sel \<Rightarrow>
             Ok (whConf\<lparr>Webhooks :=
                   pre @ w\<lparr>NamespaceSelector := Some (sel\<lparr>MatchExpressions :=
                              (if r \<in> set (MatchExpressions sel) then MatchExpressions sel
                               else MatchExpressions sel @ [r])\<rparr>)\<rparr> # post\<rparr>))"
    by (simp add: addNamespaceSelectorIfNotPresent_def patchWebhook_eq split: option.splits)
next
  assume "\<forall>x \<in> set (Webhooks whConf). wh_Name x \<noteq> n"
  then show "addNamespaceSelectorIfNotPresent whConf n r =
          Err (New (''could not find webhook '' @ n @ '' in WebhookConfiguration '' @ whc_Name whConf))"
    by (simp add: addNamespaceSelectorIfNotPresent_def scanWebhooks_no_match)
next
  assume "\<exists>e. addNamespaceSelectorIfNotPresent whConf n r = Err e"
  then have "scanWebhooks (Webhooks whConf) n r = Ok None"
    by (auto simp: addNamespaceSelectorIfNotPresent_def scanWebhooks_not_Err
             split: result.splits option.splits)
  then show "\<forall>x \<in> set (Webhooks whConf). wh_Name x \<noteq> n"
    by (simp add: scanWebhooks_None_iff)
qed

theorem addNamespaceSelectorIfNotPresent_frame_witness:
  "addNamespaceSelectorIfNotPresent
     (exampleConf [exampleWebhook ''other'' [], exampleWebhook ''auto.sidecar-injector.istio.io'' [],
                   exampleWebhook ''auto.sidecar-injector.istio.io'' []])
     ''auto.sidecar-injector.istio.io'' exampleRule
   = Ok (exampleConf [exampleWebhook ''other'' [],
                      exampleWebhook ''auto.sidecar-injector.istio.io'' [exampleRule],
                      exampleWebhook ''auto.sidecar-injector.istio.io'' []])
   \<and> addNamespaceSelectorIfNotPresent (exampleConf [exampleWebhook ''other'' []])
       ''auto.sidecar-injector.istio.io'' exampleRule
     = Err (New ''could not find webhook auto.sidecar-injector.istio.io in WebhookConfiguration istio-sidecar-injector'')"
  using addNamespaceSelectorIfNotPresent_frame
          [of "[exampleWebhook ''other'' []]" "''auto.sidecar-injector.istio.io''"
              "exampleWebhook ''auto.sidecar-injector.istio.io'' []"
              "exampleConf [exampleWebhook ''other'' [], exampleWebhook ''auto.sidecar-injector.istio.io'' [],
                   exampleWebhook ''auto.sidecar-injector.istio.io'' []]"
              "[exampleWebhook ''auto.sidecar-injector.istio.io'' []]" exampleRule]
        addNamespaceSelectorIfNotPresent_frame
          [of "[]" "''auto.sidecar-injector.istio.io''"
              "exampleWebhook ''auto.sidecar-injector.istio.io'' []"
              "exampleConf [exampleWebhook ''other'' []]" "[]" exampleRule]
  by (simp add: exampleConf_def exampleWebhook_def)

text \<open>
  Claim C1. The patch is idempotent. If the match expressions of the namespace selector
  of the target entry (the first entry with the target name) already hold an expression
  deeply equal to the required rule, the mutation step returns the configuration as it
  is. A configuration that a successful mutation step produced is returned as it is by a
  second step. And a second run of the patch that fetches the entries which a first
  successful mutation produced, and whose write is accepted, writes the fetched
  configuration without any growth and returns no error.
\<close>

theorem PatchMutatingWebhook_idempotent:
  "((\<forall>x \<in> set pre. wh_Name x \<noteq> n) \<and> wh_Name w = n \<and> Webhooks whConf = pre @ w # post
      \<and> NamespaceSelector w = Some sel \<and> (\<exists>m \<in> set (MatchExpressions sel). DeepEqual m r)
      \<longrightarrow> addNamespaceSelectorIfNotPresent whConf n r = Ok whConf)
   \<and> (addNamespaceSelectorIfNotPresent whConf n r = Ok whConf'
      \<longrightarrow> addNamespaceSelectorIfNotPresent whConf' n r = Ok whConf')
   \<and> (addNamespaceSelectorIfNotPresent first ''auto.sidecar-injector.istio.io''
          \<lparr>Key = ''gardener.cloud/purpose'', Operator = ''NotIn'', Values = Some [''kube-system'']\<rparr>
        = Ok written
      \<and> Clientset kubeClient = Inr clientSet \<and> 0 < Steps DefaultRetry
      \<and> selectWebhookConfFormCandidates clientSet
          [''istio-revision-tag-default'', ''istio-sidecar-injector''] s = ((Some fetched, None), s1)
      \<and> Webhooks fetched = Webhooks written
      \<and> MutatingWebhookConfigurations_Update clientSet fetched s1 = (None, s2)
      \<longrightarrow> PatchMutatingWebhook IsConflict DefaultRetry kubeClient s = (Ok (), s2))"
proof (intro conjI impI)
  assume a: "(\<forall>x \<in> set pre. wh_Name x \<noteq> n) \<and> wh_Name w = n \<and> Webhooks whConf = pre @ w # post
      \<and> NamespaceSelector w = Some sel \<and> (\<exists>m \<in> set (MatchExpressions sel). DeepEqual m r)"
  then have "r \<in> set (MatchExpressions sel)" by (auto simp: DeepEqual_def)
  with a show "addNamespaceSelectorIfNotPresent whConf n r = Ok whConf"
    using add_present [of pre n w whConf post sel r] by simp
next
  assume "addNamespaceSelectorIfNotPresent whConf n r = Ok whConf'"
  then show "addNamespaceSelectorIfNotPresent whConf' n r = Ok whConf'"
    by (rule add_twice) simp
next
  let ?n = "''auto.sidecar-injector.istio.io''"
  let ?r = "\<lparr>Key = ''gardener.cloud/purpose'', Operator = ''NotIn'', Values = Some [''kube-system'']\<rparr>"
  let ?names = "[''istio-revision-tag-default'', ''istio-sidecar-injector'']"
  assume a: "addNamespaceSelectorIfNotPresent first ?n ?r = Ok written
      \<and> Clientset kubeClient = Inr clientSet \<and> 0 < Steps DefaultRetry
      \<and> selectWebhookConfFormCandidates clientSet ?names s = ((Some fetched, None), s1)
      \<and> Webhooks fetched = Webhooks written
      \<and> MutatingWebhookConfigurations_Update clientSet fetched s1 = (None, s2)"
  then have same: "addNamespaceSelectorIfNotPresent fetched ?n ?r = Ok fetched"
    using add_twice [of first ?n ?r written fetched] by simp
  have att: "patchAttempt clientSet ?names ?n ?r s = (Ok (), s2)"
    using a same by (simp add: patchAttempt_def)
  from a obtain k where k: "nat (Steps DefaultRetry) = Suc k"
    by (cases "nat (Steps DefaultRetry)") auto
  show "PatchMutatingWebhook IsConflict DefaultRetry kubeClient s = (Ok (), s2)"
    using a att k by (simp add: PatchMutatingWebhook_def RetryOnConflict_def Let_def)
qed

theorem PatchMutatingWebhook_idempotent_witness:
  "addNamespaceSelectorIfNotPresent
     (exampleConf [exampleWebhook ''auto.sidecar-injector.istio.io'' [exampleRule]])
     ''auto.sidecar-injector.istio.io'' exampleRule
   = Ok (exampleConf [exampleWebhook ''auto.sidecar-injector.istio.io'' [exampleRule]])
   \<and> PatchMutatingWebhook fakeIsConflict \<lparr>Steps = 5\<rparr> (fakeKubeClient None)
       (exampleCluster [exampleWebhook ''auto.sidecar-injector.istio.io'' [exampleRule]] 0)
     = (Ok (),
        \<lparr>stored =
           [(''istio-sidecar-injector'',
             exampleConf [exampleWebhook ''auto.sidecar-injector.istio.io'' [exampleRule]]),
            (''istio-sidecar-injector'',
             exampleConf [exampleWebhook ''auto.sidecar-injector.istio.io'' [exampleRule]])],
         conflicts = 0, calls = [''update'']\<rparr>)"
  using PatchMutatingWebhook_idempotent
    [where pre = "[]" and n = "''auto.sidecar-injector.istio.io''"
       and w = "exampleWebhook ''auto.sidecar-injector.istio.io'' [exampleRule]"
       and whConf = "exampleConf [exampleWebhook ''auto.sidecar-injector.istio.io'' [exampleRule]]"
       and post = "[]" and sel = "\<lparr>MatchLabels = [], MatchExpressions = [exampleRule]\<rparr>"
       and r = exampleRule
       and whConf' = "exampleConf [exampleWebhook ''auto.sidecar-injector.istio.io'' [exampleRule]]"
       and first = "exampleConf [exampleWebhook ''auto.sidecar-injector.istio.io'' []]"
       and written = "exampleConf [exampleWebhook ''auto.sidecar-injector.istio.io'' [exampleRule]]"
       and kubeClient = "fakeKubeClient None" and clientSet = "fakeClientSet None"
       and DefaultRetry = "\<lparr>Steps = 5\<rparr>" and IsConflict = fakeIsConflict
       and s = "exampleCluster [exampleWebhook ''auto.sidecar-injector.istio.io'' [exampleRule]] 0"
       and fetched = "exampleConf [exampleWebhook ''auto.sidecar-injector.istio.io'' [exampleRule]]"
       and ?s1.0 = "exampleCluster [exampleWebhook ''auto.sidecar-injector.istio.io'' [exampleRule]] 0"
       and ?s2.0 = "\<lparr>stored =
           [(''istio-sidecar-injector'',
             exampleConf [exampleWebhook ''auto.sidecar-injector.istio.io'' [exampleRule]]),
            (''istio-sidecar-injector'',
             exampleConf [exampleWebhook ''auto.sidecar-injector.istio.io'' [exampleRule]])],
         conflicts = 0, calls = [''update'']\<rparr>"]
  by (simp add: fake_defs DeepEqual_def addNamespaceSelectorIfNotPresent_def patchWebhook_def
        selectWebhookConfFormCandidates_def)



text \<open>
  Claim C6. The cycle of the patch (selection, mutation, write) is run again from the
  fetch, on the state that the attempt before it left, as long as the attempt ends in a
  conflict and attempts remain. If the attempts \<open>0, \<dots>, k - 1\<close> end in a conflict and
  attempt \<open>k\<close>, within the bound, does not, the patch returns what attempt \<open>k\<close> returns: a
  success, or an error that is no conflict, at once. If the bound is positive and every
  attempt within it ends in a conflict, the patch returns what the last attempt returns,
  which is a conflict error.
\<close>

theorem PatchMutatingWebhook_conflict_retry:
  assumes "Clientset kubeClient = Inr clientSet"
    and "fn = patchAttempt clientSet [''istio-revision-tag-default'', ''istio-sidecar-injector'']
                ''auto.sidecar-injector.istio.io''
                \<lparr>Key = ''gardener.cloud/purpose'', Operator = ''NotIn'',
                 Values = Some [''kube-system'']\<rparr>"
  shows "(k < nat (Steps DefaultRetry) \<and> (\<forall>j<k. conflictAt IsConflict fn s j)
            \<and> \<not> conflictAt IsConflict fn s k
          \<longrightarrow> PatchMutatingWebhook IsConflict DefaultRetry kubeClient s = fn (attemptState fn k s))
       \<and> (0 < Steps DefaultRetry \<and> (\<forall>j < nat (Steps DefaultRetry). conflictAt IsConflict fn s j)
          \<longrightarrow> PatchMutatingWebhook IsConflict DefaultRetry kubeClient s
                = fn (attemptState fn (nat (Steps DefaultRetry) - 1) s)
              \<and> (\<exists>e. fst (PatchMutatingWebhook IsConflict DefaultRetry kubeClient s) = Err e
                      \<and> IsConflict e))"
proof -
  have P: "PatchMutatingWebhook IsConflict DefaultRetry kubeClient s
             = retryLoop (nat (Steps DefaultRetry)) IsConflict fn None s"
    using assms by (simp add: PatchMutatingWebhook_def RetryOnConflict_def Let_def)
  show ?thesis
  proof (intro conjI impI)
    assume "k < nat (Steps DefaultRetry) \<and> (\<forall>j<k. conflictAt IsConflict fn s j)
            \<and> \<not> conflictAt IsConflict fn s k"
    then show "PatchMutatingWebhook IsConflict DefaultRetry kubeClient s = fn (attemptState fn k s)"
      unfolding P by (simp add: retryLoop_decided)
  next
    assume a: "0 < Steps DefaultRetry \<and> (\<forall>j < nat (Steps DefaultRetry). conflictAt IsConflict fn s j)"
    then show R: "PatchMutatingWebhook IsConflict DefaultRetry kubeClient s
                = fn (attemptState fn (nat (Steps DefaultRetry) - 1) s)"
      unfolding P by (simp add: retryLoop_exhausted)
    from a have "conflictAt IsConflict fn s (nat (Steps DefaultRetry) - 1)" by simp
    then show "\<exists>e. fst (PatchMutatingWebhook IsConflict DefaultRetry kubeClient s) = Err e
                      \<and> IsConflict e"
      unfolding R by (auto simp: conflictAt_def split: result.splits)
  qed
qed

theorem PatchMutatingWebhook_conflict_retry_witness:
  "PatchMutatingWebhook fakeIsConflict \<lparr>Steps = 5\<rparr> (fakeKubeClient None)
       (exampleCluster [exampleWebhook ''auto.sidecar-injector.istio.io'' []] 2)
     = (Ok (),
        \<lparr>stored =
           [(''istio-sidecar-injector'',
             exampleConf [exampleWebhook ''auto.sidecar-injector.istio.io'' [exampleRule]]),
            (''istio-sidecar-injector'',
             exampleConf [exampleWebhook ''auto.sidecar-injector.istio.io'' []])],
         conflicts = 0, calls = [''update'']\<rparr>)
   \<and> PatchMutatingWebhook fakeIsConflict \<lparr>Steps = 5\<rparr> (fakeKubeClient None)
       (exampleCluster [exampleWebhook ''auto.sidecar-injector.istio.io'' []] 7)
     = (Err (StatusError ''Conflict'' ''istio-sidecar-injector''),
        \<lparr>stored =
           [(''istio-sidecar-injector'',
             exampleConf [exampleWebhook ''auto.sidecar-injector.istio.io'' []])],
         conflicts = 2, calls = []\<rparr>)"
  using PatchMutatingWebhook_conflict_retry
    [where kubeClient = "fakeKubeClient None" and clientSet = "fakeClientSet None"
       and DefaultRetry = "\<lparr>Steps = 5\<rparr>" and IsConflict = fakeIsConflict and k = 2
       and s = "exampleCluster [exampleWebhook ''auto.sidecar-injector.istio.io'' []] 2",
     OF _ refl]
   PatchMutatingWebhook_conflict_retry
    [where kubeClient = "fakeKubeClient None" and clientSet = "fakeClientSet None"
       and DefaultRetry = "\<lparr>Steps = 5\<rparr>" and IsConflict = fakeIsConflict and k = 0
       and s = "exampleCluster [exampleWebhook ''auto.sidecar-injector.istio.io'' []] 7",
     OF _ refl]
  by (simp add: fake_defs conflictAt_def patchAttempt_def selectWebhookConfFormCandidates_def
        addNamespaceSelectorIfNotPresent_def patchWebhook_def DeepEqual_def
        eval_nat_numeral less_Suc_eq all_conj_distrib)

section \<open>The claims about the operations of the performer\<close>

text \<open>
  Claim C7. When the uninstall call of the resolved commander succeeds and the deletion
  of the namespace \<^verbatim>\<open>istio-system\<close>, with foreground propagation, fails, \<^verbatim>\<open>Uninstall\<close>
  returns the error of the deletion. \<^verbatim>\<open>Uninstall\<close> returns no error only if the version was
  parsed, the commander was resolved, its uninstall call succeeded, the client set was
  obtained and the deletion succeeded.
\<close>

theorem Uninstall_surfaces_deletion_error:
  "(VersionFromString version = Inr execVersion
      \<and> resolver_GetCommander c execVersion = Inr commander
      \<and> Commander_Uninstall commander (Kubeconfig kubeClientSet) logger s = (None, s1)
      \<and> Clientset kubeClientSet = Inr kubeClient
      \<and> Namespaces_Delete kubeClient ''istio-system''
           \<lparr>PropagationPolicy = Some DeletePropagationForeground\<rparr> s1 = (Some err, s2)
      \<longrightarrow> Uninstall VersionFromString c kubeClientSet version logger s = (Some err, s2))
   \<and> (Uninstall VersionFromString c kubeClientSet version logger s = (None, s')
      \<longrightarrow> (\<exists>execVersion commander s1 kubeClient.
             VersionFromString version = Inr execVersion
             \<and> resolver_GetCommander c execVersion = Inr commander
             \<and> Commander_Uninstall commander (Kubeconfig kubeClientSet) logger s = (None, s1)
             \<and> Clientset kubeClientSet = Inr kubeClient
             \<and> Namespaces_Delete kubeClient ''istio-system''
                  \<lparr>PropagationPolicy = Some DeletePropagationForeground\<rparr> s1 = (None, s')))"
proof (intro conjI impI)
  assume "VersionFromString version = Inr execVersion
      \<and> resolver_GetCommander c execVersion = Inr commander
      \<and> Commander_Uninstall commander (Kubeconfig kubeClientSet) logger s = (None, s1)
      \<and> Clientset kubeClientSet = Inr kubeClient
      \<and> Namespaces_Delete kubeClient ''istio-system''
           \<lparr>PropagationPolicy = Some DeletePropagationForeground\<rparr> s1 = (Some err, s2)"
  then show "Uninstall VersionFromString c kubeClientSet version logger s = (Some err, s2)"
    by (simp add: Uninstall_def)
next
  assume "Uninstall VersionFromString c kubeClientSet version logger s = (None, s')"
  then show "\<exists>execVersion commander s1 kubeClient.
             VersionFromString version = Inr execVersion
             \<and> resolver_GetCommander c execVersion = Inr commander
             \<and> Commander_Uninstall commander (Kubeconfig kubeClientSet) logger s = (None, s1)
             \<and> Clientset kubeClientSet = Inr kubeClient
             \<and> Namespaces_Delete kubeClient ''istio-system''
                  \<lparr>PropagationPolicy = Some DeletePropagationForeground\<rparr> s1 = (None, s')"
    by (auto simp: Uninstall_def Let_def split: sum.splits prod.splits option.splits)
qed

theorem Uninstall_surfaces_deletion_error_witness:
  "Uninstall fakeVersionFromString fakePerformer
      (fakeKubeClient (Some (New ''namespace deletion failed''))) ''1.11.4'' (Logger 0)
      \<lparr>stored = [], conflicts = 0, calls = []\<rparr>
     = (Some (New ''namespace deletion failed''),
        \<lparr>stored = [], conflicts = 0, calls = [''uninstall'', ''delete istio-system'']\<rparr>)
   \<and> Uninstall fakeVersionFromString fakePerformer (fakeKubeClient None) ''1.11.4'' (Logger 0)
      \<lparr>stored = [], conflicts = 0, calls = []\<rparr>
     = (None, \<lparr>stored = [], conflicts = 0, calls = [''uninstall'', ''delete istio-system'']\<rparr>)"
  using Uninstall_surfaces_deletion_error
    [where VersionFromString = fakeVersionFromString and version = "''1.11.4''"
       and execVersion = "''1.11.4''" and c = fakePerformer and commander = fakeCommander
       and kubeClientSet = "fakeKubeClient (Some (New ''namespace deletion failed''))"
       and logger = "Logger 0" and s = "\<lparr>stored = [], conflicts = 0, calls = []\<rparr>"
       and ?s1.0 = "\<lparr>stored = [], conflicts = 0, calls = [''uninstall'']\<rparr>"
       and kubeClient = "fakeClientSet (Some (New ''namespace deletion failed''))"
       and err = "New ''namespace deletion failed''"
       and ?s2.0 = "\<lparr>stored = [], conflicts = 0, calls = [''uninstall'', ''delete istio-system'']\<rparr>"]
    Uninstall_surfaces_deletion_error
    [where VersionFromString = fakeVersionFromString and version = "''1.11.4''"
       and c = fakePerformer and kubeClientSet = "fakeKubeClient None"
       and logger = "Logger 0" and s = "\<lparr>stored = [], conflicts = 0, calls = []\<rparr>"
       and s' = "\<lparr>stored = [], conflicts = 0, calls = [''uninstall'', ''delete istio-system'']\<rparr>"]
  by (simp add: Uninstall_def fakeVersionFromString_def fakePerformer_def fakeKubeClient_def
        fakeClientSet_def fakeDelete_def fakeCommander_def)

text \<open>
  Claim C8. When the version does not parse, \<^verbatim>\<open>Install\<close> returns the parse error wrapped;
  when the manifest cannot be extracted or the commander cannot be resolved, it returns
  that error. In the three cases the state of the cluster is the one before the call: no
  call on a commander was made. The install capability is called exactly when the three
  steps succeed, and then its outcome decides the result.
\<close>

theorem Install_aborts_before_install:
  "(VersionFromString version = Inl err
      \<longrightarrow> Install VersionFromString ExtractIstioOperatorContextFrom c kubeConfig istioChart version logger s
            = (Some (WithMessage err ''Error parsing version''), s))
   \<and> (VersionFromString version = Inr execVersion
        \<and> ExtractIstioOperatorContextFrom istioChart = Inl err
      \<longrightarrow> Install VersionFromString ExtractIstioOperatorContextFrom c kubeConfig istioChart version logger s
            = (Some err, s))
   \<and> (VersionFromString version = Inr execVersion
        \<and> ExtractIstioOperatorContextFrom istioChart = Inr istioOperatorManifest
        \<and> resolver_GetCommander c execVersion = Inl err
      \<longrightarrow> Install VersionFromString ExtractIstioOperatorContextFrom c kubeConfig istioChart version logger s
            = (Some err, s))
   \<and> (VersionFromString version = Inr execVersion
        \<and> ExtractIstioOperatorContextFrom istioChart = Inr istioOperatorManifest
        \<and> resolver_GetCommander c execVersion = Inr commander
      \<longrightarrow> Install VersionFromString ExtractIstioOperatorContextFrom c kubeConfig istioChart version logger s
            = (case Commander_Install commander istioOperatorManifest kubeConfig logger s of
                 (Some err, s1) \<Rightarrow> (Some (WithMessage err ''Error occurred when calling istioctl''), s1)
               | (None, s1) \<Rightarrow> (None, s1)))"
proof (intro conjI impI)
  assume "VersionFromString version = Inl err"
  then show "Install VersionFromString ExtractIstioOperatorContextFrom c kubeConfig istioChart version logger s
            = (Some (WithMessage err ''Error parsing version''), s)"
    by (simp add: Install_def)
next
  assume "VersionFromString version = Inr execVersion
        \<and> ExtractIstioOperatorContextFrom istioChart = Inl err"
  then show "Install VersionFromString ExtractIstioOperatorContextFrom c kubeConfig istioChart version logger s
            = (Some err, s)"
    by (simp add: Install_def)
next
  assume "VersionFromString version = Inr execVersion
        \<and> ExtractIstioOperatorContextFrom istioChart = Inr istioOperatorManifest
        \<and> resolver_GetCommander c execVersion = Inl err"
  then show "Install VersionFromString ExtractIstioOperatorContextFrom c kubeConfig istioChart version logger s
            = (Some err, s)"
    by (simp add: Install_def)
next
  assume "VersionFromString version = Inr execVersion
        \<and> ExtractIstioOperatorContextFrom istioChart = Inr istioOperatorManifest
        \<and> resolver_GetCommander c execVersion = Inr commander"
  then show "Install VersionFromString ExtractIstioOperatorContextFrom c kubeConfig istioChart version logger s
            = (case Commander_Install commander istioOperatorManifest kubeConfig logger s of
                 (Some err, s1) \<Rightarrow> (Some (WithMessage err ''Error occurred when calling istioctl''), s1)
               | (None, s1) \<Rightarrow> (None, s1))"
    by (simp add: Install_def split: prod.splits option.splits)
qed

theorem Install_aborts_before_install_witness:
  "Install fakeVersionFromString fakeExtract fakePerformer ''kubeconfig'' ''istio'' '''' (Logger 0)
      \<lparr>stored = [], conflicts = 0, calls = []\<rparr>
     = (Some (WithMessage (New ''empty version'') ''Error parsing version''),
        \<lparr>stored = [], conflicts = 0, calls = []\<rparr>)
   \<and> Install fakeVersionFromString fakeExtract fakePerformer ''kubeconfig'' ''other'' ''1.11.4'' (Logger 0)
      \<lparr>stored = [], conflicts = 0, calls = []\<rparr>
     = (Some (New ''no operator file''), \<lparr>stored = [], conflicts = 0, calls = []\<rparr>)
   \<and> Install fakeVersionFromString fakeExtract fakePerformer ''kubeconfig'' ''istio'' ''0.0.1'' (Logger 0)
      \<lparr>stored = [], conflicts = 0, calls = []\<rparr>
     = (Some (New ''unsupported version''), \<lparr>stored = [], conflicts = 0, calls = []\<rparr>)
   \<and> Install fakeVersionFromString fakeExtract fakePerformer ''kubeconfig'' ''istio'' ''1.11.4'' (Logger 0)
      \<lparr>stored = [], conflicts = 0, calls = []\<rparr>
     = (None, \<lparr>stored = [], conflicts = 0, calls = [''install'']\<rparr>)"
  using Install_aborts_before_install
    [where VersionFromString = fakeVersionFromString
       and ExtractIstioOperatorContextFrom = fakeExtract and c = fakePerformer
       and version = "''''" and err = "New ''empty version''" and istioChart = "''istio''"
       and kubeConfig = "''kubeconfig''" and logger = "Logger 0"
       and s = "\<lparr>stored = [], conflicts = 0, calls = []\<rparr>"]
    Install_aborts_before_install
    [where VersionFromString = fakeVersionFromString
       and ExtractIstioOperatorContextFrom = fakeExtract and c = fakePerformer
       and version = "''1.11.4''" and execVersion = "''1.11.4''"
       and err = "New ''no operator file''" and istioChart = "''other''"
       and kubeConfig = "''kubeconfig''" and logger = "Logger 0"
       and s = "\<lparr>stored = [], conflicts = 0, calls = []\<rparr>"]
    Install_aborts_before_install
    [where VersionFromString = fakeVersionFromString
       and ExtractIstioOperatorContextFrom = fakeExtract and c = fakePerformer
       and version = "''0.0.1''" and execVersion = "''0.0.1''"
       and istioOperatorManifest = "''manifest''"
       and err = "New ''unsupported version''" and istioChart = "''istio''"
       and kubeConfig = "''kubeconfig''" and logger = "Logger 0"
       and s = "\<lparr>stored = [], conflicts = 0, calls = []\<rparr>"]
    Install_aborts_before_install
    [where VersionFromString = fakeVersionFromString
       and ExtractIstioOperatorContextFrom = fakeExtract and c = fakePerformer
       and version = "''1.11.4''" and execVersion = "''1.11.4''"
       and istioOperatorManifest = "''manifest''" and commander = fakeCommander
       and istioChart = "''istio''"
       and kubeConfig = "''kubeconfig''" and logger = "Logger 0"
       and s = "\<lparr>stored = [], conflicts = 0, calls = []\<rparr>"]
  by (simp add: Install_def fakeVersionFromString_def fakeExtract_def fakePerformer_def
        fakeCommander_def)

text \<open>
  Claim C9. Once the kube client is retrieved, \<^verbatim>\<open>ResetProxy\<close> runs the proxy reset with
  the image prefix \<^verbatim>\<open>istio/proxyv2\<close>, the image version made of the given tag followed by
  \<^verbatim>\<open>-distroless\<close>, 5 retries, 5 seconds between retries, a timeout of 5 minutes and an
  interval of 12 seconds, and wraps the error of the reset if there is one.
\<close>

theorem ResetProxy_builds_config:
  "provider_RetrieveFrom c kubeConfig logger = Inr kubeClient \<Longrightarrow>
   ResetProxy c ctx kubeConfig proxyImageVersion logger s =
     (case istioProxyReset_Run c
             \<lparr>cfg_Context = ctx,
              ImagePrefix = ''istio/proxyv2'',
              ImageVersion = proxyImageVersion @ ''-distroless'',
              RetriesCount = 5,
              DelayBetweenRetries = 5 * 1000000000,
              Timeout = 5 * 60 * 1000000000,
              Interval = 12 * 1000000000,
              Kubeclient = kubeClient,
              Debug = False,
              Log = logger\<rparr> s of
        (Some err, s1) \<Rightarrow> (Some (WithMessage err ''Istio proxy reset error''), s1)
      | (None, s1) \<Rightarrow> (None, s1))"
  by (simp add: ResetProxy_def istioImagePrefix_def retriesCount_def delayBetweenRetries_def
        timeout_def interval_def time_Second_def time_Minute_def
        split: prod.splits option.splits)

theorem ResetProxy_builds_config_witness:
  "ResetProxy fakePerformer (Context 0) ''kubeconfig'' ''1.11.4'' (Logger 0)
      \<lparr>stored = [], conflicts = 0, calls = []\<rparr>
     = (Some (WithMessage (New ''reset failed'') ''Istio proxy reset error''),
        \<lparr>stored = [], conflicts = 0, calls = [''reset istio/proxyv2:1.11.4-distroless'']\<rparr>)"
  using ResetProxy_builds_config
    [where c = fakePerformer and kubeConfig = "''kubeconfig''" and logger = "Logger 0"
       and kubeClient = 0 and ctx = "Context 0" and proxyImageVersion = "''1.11.4''"
       and s = "\<lparr>stored = [], conflicts = 0, calls = []\<rparr>"]
  by (simp add: fakePerformer_def)

section \<open>The claims about versions\<close>

text \<open>
  Claim C2. For a chart that was loaded and whose values decode, the target version is
  the version under \<^verbatim>\<open>global.images.istio_pilot.version\<close> of the values when that is not
  empty, whatever the metadata say; otherwise it is the \<^verbatim>\<open>AppVersion\<close> of the metadata
  when that is not empty; and when both are empty the resolution fails with the error that
  the version was found neither in \<^verbatim>\<open>Chart.yaml\<close> nor in the values.
\<close>

theorem getTargetVersionFromIstioChart_precedence:
  assumes "workspace_Get branch = Inr ws"
    and "loader_Load (filepath_Join (ResourceDir ws) istioChart) = Inr istioHelmChart"
    and "json_Marshal (chart_Values istioHelmChart) = Inr mapAsJSON"
    and "json_Unmarshal mapAsJSON = Inr decoded"
    and "pilotVersion = IstioPilot_Version (IstioPilot (Images (Global decoded)))"
    and "target = getTargetVersionFromIstioChart filepath_Join loader_Load json_Marshal
                    json_Unmarshal workspace_Get branch istioChart"
  shows "(pilotVersion \<noteq> '''' \<longrightarrow> target = Ok pilotVersion)
       \<and> (pilotVersion = '''' \<and> Metadata istioHelmChart = Some metadata
            \<and> AppVersion metadata \<noteq> ''''
          \<longrightarrow> target = Ok (AppVersion metadata))
       \<and> (pilotVersion = '''' \<and> Metadata istioHelmChart = Some metadata
            \<and> AppVersion metadata = ''''
          \<longrightarrow> target = Err (New ''Target Istio version could not be found neither in Chart.yaml nor in helm values''))"
  using assms
  by (simp add: getTargetVersionFromIstioChart_def getTargetVersionFromPilotInChartValues_def
        getTargetVersionFromAppVersionInChartDefinition_def)

theorem getTargetVersionFromIstioChart_precedence_witness:
  "getTargetVersionFromIstioChart (\<lambda>dir name. dir @ ''/'' @ name) (fakeLoad ''1.2.3'' ''9.9.9'')
      Inr fakeUnmarshalValues (\<lambda>branch. Inr \<lparr>ResourceDir = ''resources''\<rparr>) ''main'' ''istio''
     = Ok ''1.2.3''
   \<and> getTargetVersionFromIstioChart (\<lambda>dir name. dir @ ''/'' @ name) (fakeLoad '''' ''1.0.0'')
      Inr fakeUnmarshalValues (\<lambda>branch. Inr \<lparr>ResourceDir = ''resources''\<rparr>) ''main'' ''istio''
     = Ok ''1.0.0''
   \<and> getTargetVersionFromIstioChart (\<lambda>dir name. dir @ ''/'' @ name) (fakeLoad '''' '''')
      Inr fakeUnmarshalValues (\<lambda>branch. Inr \<lparr>ResourceDir = ''resources''\<rparr>) ''main'' ''istio''
     = Err (New ''Target Istio version could not be found neither in Chart.yaml nor in helm values'')"
  using getTargetVersionFromIstioChart_precedence
    [where workspace_Get = "\<lambda>branch. Inr \<lparr>ResourceDir = ''resources''\<rparr>" and branch = "''main''"
       and ws = "\<lparr>ResourceDir = ''resources''\<rparr>" and loader_Load = "fakeLoad ''1.2.3'' ''9.9.9''"
       and filepath_Join = "\<lambda>dir name. dir @ ''/'' @ name" and istioChart = "''istio''"
       and istioHelmChart = "\<lparr>chart_Values = ''1.2.3'', Metadata = Some \<lparr>AppVersion = ''9.9.9''\<rparr>\<rparr>"
       and json_Marshal = Inr and mapAsJSON = "''1.2.3''" and json_Unmarshal = fakeUnmarshalValues
       and decoded = "\<lparr>Global = \<lparr>Images = \<lparr>IstioPilot = \<lparr>IstioPilot_Version = ''1.2.3''\<rparr>\<rparr>\<rparr>\<rparr>"
       and pilotVersion = "''1.2.3''" and metadata = "\<lparr>AppVersion = ''9.9.9''\<rparr>",
     OF _ _ _ _ _ refl]
    getTargetVersionFromIstioChart_precedence
    [where workspace_Get = "\<lambda>branch. Inr \<lparr>ResourceDir = ''resources''\<rparr>" and branch = "''main''"
       and ws = "\<lparr>ResourceDir = ''resources''\<rparr>" and loader_Load = "fakeLoad '''' ''1.0.0''"
       and filepath_Join = "\<lambda>dir name. dir @ ''/'' @ name" and istioChart = "''istio''"
       and istioHelmChart = "\<lparr>chart_Values = '''', Metadata = Some \<lparr>AppVersion = ''1.0.0''\<rparr>\<rparr>"
       and json_Marshal = Inr and mapAsJSON = "''''" and json_Unmarshal = fakeUnmarshalValues
       and decoded = "\<lparr>Global = \<lparr>Images = \<lparr>IstioPilot = \<lparr>IstioPilot_Version = ''''\<rparr>\<rparr>\<rparr>\<rparr>"
       and pilotVersion = "''''" and metadata = "\<lparr>AppVersion = ''1.0.0''\<rparr>",
     OF _ _ _ _ _ refl]
    getTargetVersionFromIstioChart_precedence
    [where workspace_Get = "\<lambda>branch. Inr \<lparr>ResourceDir = ''resources''\<rparr>" and branch = "''main''"
       and ws = "\<lparr>ResourceDir = ''resources''\<rparr>" and loader_Load = "fakeLoad '''' ''''"
       and filepath_Join = "\<lambda>dir name. dir @ ''/'' @ name" and istioChart = "''istio''"
       and istioHelmChart = "\<lparr>chart_Values = '''', Metadata = Some \<lparr>AppVersion = ''''\<rparr>\<rparr>"
       and json_Marshal = Inr and mapAsJSON = "''''" and json_Unmarshal = fakeUnmarshalValues
       and decoded = "\<lparr>Global = \<lparr>Images = \<lparr>IstioPilot = \<lparr>IstioPilot_Version = ''''\<rparr>\<rparr>\<rparr>\<rparr>"
       and pilotVersion = "''''" and metadata = "\<lparr>AppVersion = ''''\<rparr>",
     OF _ _ _ _ _ refl]
  by (simp add: fakeLoad_def fakeUnmarshalValues_def)

text \<open>
  Claim C4, at the inputs where the code departs from it. An output that parses and has
  no \<^verbatim>\<open>clientVersion\<close> object is not mapped to a status with an empty client version:
  reading the version through the nil pointer makes \<^verbatim>\<open>mapVersionToStruct\<close> panic.
\<close>

theorem mapVersionToStruct_absent_clientVersion:
  "CHR ''{'' \<in> set versionOutput \<Longrightarrow>
   json_Unmarshal (dropWhile (\<lambda>b. b \<noteq> CHR ''{'') versionOutput) = Inr version \<Longrightarrow>
   out_ClientVersion version = None \<Longrightarrow>
   mapVersionToStruct json_Unmarshal versionOutput targetVersion
     = Panic ''invalid memory address or nil pointer dereference''"
proof -
  assume a: "CHR ''{'' \<in> set versionOutput"
    "json_Unmarshal (dropWhile (\<lambda>b. b \<noteq> CHR ''{'') versionOutput) = Inr version"
    "out_ClientVersion version = None"
  from a(1) have ne: "versionOutput \<noteq> []" by auto
  have "getVersionFromJSON ''client'' version = Panic ''invalid memory address or nil pointer dereference''"
    using a(3) by (simp add: getVersionFromJSON_def)
  then show ?thesis
    using ne a(2) trimmed_present [OF a(1)]
    by (simp add: mapVersionToStruct_def)
qed

theorem mapVersionToStruct_absent_clientVersion_witness:
  "mapVersionToStruct fakeUnmarshal ''{}'' ''1.11.4''
     = Panic ''invalid memory address or nil pointer dereference''
   \<and> mapVersionToStruct fakeUnmarshal ''banner {}'' ''1.11.4''
     = Panic ''invalid memory address or nil pointer dereference''"
  using mapVersionToStruct_absent_clientVersion
    [where versionOutput = "''{}''" and json_Unmarshal = fakeUnmarshal
       and version = "\<lparr>out_ClientVersion = None, out_MeshVersion = [], out_DataPlaneVersion = []\<rparr>"
       and targetVersion = "''1.11.4''"]
    mapVersionToStruct_absent_clientVersion
    [where versionOutput = "''banner {}''" and json_Unmarshal = fakeUnmarshal
       and version = "\<lparr>out_ClientVersion = None, out_MeshVersion = [], out_DataPlaneVersion = []\<rparr>"
       and targetVersion = "''1.11.4''"]
  by (simp add: fakeUnmarshal_def)

text \<open>
  Claim C5, with the input where the code departs from it. An empty output gives the
  error that the result is empty; an output with a \<^verbatim>\<open>{\<close> is mapped as the output cut
  before its first \<^verbatim>\<open>{\<close> is, and when that rest does not parse the error of the parser
  is returned; but an
  output that is not empty and has no \<^verbatim>\<open>{\<close> at all is sliced from index \<open>-1\<close>, and
  \<^verbatim>\<open>mapVersionToStruct\<close> panics instead of returning an error.
\<close>

theorem mapVersionToStruct_trimming:
  "(versionOutput = []
      \<longrightarrow> mapVersionToStruct json_Unmarshal versionOutput targetVersion
            = Err (New ''the result of the version command is empty''))
   \<and> (CHR ''{'' \<in> set versionOutput
      \<longrightarrow> mapVersionToStruct json_Unmarshal versionOutput targetVersion
            = mapVersionToStruct json_Unmarshal
                (dropWhile (\<lambda>b. b \<noteq> CHR ''{'') versionOutput) targetVersion)
   \<and> (CHR ''{'' \<in> set versionOutput
        \<and> json_Unmarshal (dropWhile (\<lambda>b. b \<noteq> CHR ''{'') versionOutput) = Inl err
      \<longrightarrow> mapVersionToStruct json_Unmarshal versionOutput targetVersion = Err err)
   \<and> (versionOutput \<noteq> [] \<and> CHR ''{'' \<notin> set versionOutput
      \<longrightarrow> mapVersionToStruct json_Unmarshal versionOutput targetVersion
            = Panic ''slice bounds out of range'')"
proof (intro conjI impI)
  assume "versionOutput = []"
  then show "mapVersionToStruct json_Unmarshal versionOutput targetVersion
            = Err (New ''the result of the version command is empty'')"
    by (simp add: mapVersionToStruct_def)
next
  assume "CHR ''{'' \<in> set versionOutput"
  then show "mapVersionToStruct json_Unmarshal versionOutput targetVersion
            = mapVersionToStruct json_Unmarshal
                (dropWhile (\<lambda>b. b \<noteq> CHR ''{'') versionOutput) targetVersion"
    by (rule mapVersionToStruct_trimmed)
next
  assume a: "CHR ''{'' \<in> set versionOutput
        \<and> json_Unmarshal (dropWhile (\<lambda>b. b \<noteq> CHR ''{'') versionOutput) = Inl err"
  then have ne: "versionOutput \<noteq> []" by auto
  from a have t: "(if IndexRune versionOutput CHR ''{'' \<noteq> 0
               then sliceFrom versionOutput (IndexRune versionOutput CHR ''{'')
               else Ok versionOutput) = Ok (dropWhile (\<lambda>b. b \<noteq> CHR ''{'') versionOutput)"
    using trimmed_present [of "CHR ''{''" versionOutput] by simp
  show "mapVersionToStruct json_Unmarshal versionOutput targetVersion = Err err"
    using ne a t by (simp add: mapVersionToStruct_def)
next
  assume a: "versionOutput \<noteq> [] \<and> CHR ''{'' \<notin> set versionOutput"
  then have "IndexRune versionOutput CHR ''{'' = - 1" by (simp add: IndexRune_absent)
  with a show "mapVersionToStruct json_Unmarshal versionOutput targetVersion
            = Panic ''slice bounds out of range''"
    by (simp add: mapVersionToStruct_def sliceFrom_def)
qed

theorem mapVersionToStruct_trimming_witness:
  "mapVersionToStruct fakeUnmarshal '''' ''1.11.4''
     = Err (New ''the result of the version command is empty'')
   \<and> mapVersionToStruct fakeUnmarshal ''banner {client}'' ''1.11.4''
     = mapVersionToStruct fakeUnmarshal ''{client}'' ''1.11.4''
   \<and> mapVersionToStruct fakeUnmarshal ''banner {'' ''1.11.4'' = Err (New ''invalid character'')
   \<and> mapVersionToStruct fakeUnmarshal ''connection refused'' ''1.11.4''
     = Panic ''slice bounds out of range''"
  using mapVersionToStruct_trimming
    [where versionOutput = "''''" and json_Unmarshal = fakeUnmarshal and targetVersion = "''1.11.4''"]
    mapVersionToStruct_trimming
    [where versionOutput = "''banner {client}''" and json_Unmarshal = fakeUnmarshal
       and targetVersion = "''1.11.4''"]
    mapVersionToStruct_trimming
    [where versionOutput = "''banner {''" and json_Unmarshal = fakeUnmarshal
       and targetVersion = "''1.11.4''" and err = "New ''invalid character''"]
    mapVersionToStruct_trimming
    [where versionOutput = "''connection refused''" and json_Unmarshal = fakeUnmarshal
       and targetVersion = "''1.11.4''"]
  by (simp add: fakeUnmarshal_def mapVersionToStruct_def getVersionFromJSON_def)

end
